theory Spec2Isabelle
  imports Main
begin

section \<open>connectrum: the Stratum client (client.py)\<close>

text \<open>
  A shallow embedding of class \<open>StratumClient\<close> of \<open>connectrum/client.py\<close>.
  The object's attributes are the fields of a record; every method takes the state and
  returns its outcome together with the state it leaves behind. A Python exception does
  not undo the assignments made before it, so a raise is \<open>(Inl e, s)\<close> with \<open>s\<close>
  the state at the moment of the raise.
\<close>

subsection \<open>Decoded JSON\<close>

text \<open>
  What \<open>json.loads\<close> yields: \<open>None\<close>, a bool, an int, a str, a list or a dict.
  Python's \<open>None\<close> and JSON's \<open>null\<close> are the same value \<open>JNull\<close>. JSON numbers
  with a fraction or an exponent (Python floats) are not represented.
\<close>

datatype json =
    JNull
  | JBool bool
  | JInt int
  | JStr string
  | JArr "json list"
  | JObj "(string \<times> json) list"

text \<open>A message is a dict with string keys: \<open>msg.get(k)\<close> and \<open>k in msg\<close>.\<close>

type_synonym msg = "string \<rightharpoonup> json"

definition msg_get :: "msg \<Rightarrow> string \<Rightarrow> json" where
  \<comment> \<open>\<open>msg.get(k)\<close>, also \<open>msg.get(k, None)\<close>: \<open>None\<close> for a missing key\<close>
  "msg_get m k = (case m k of None \<Rightarrow> JNull | Some v \<Rightarrow> v)"

fun truthy :: "json \<Rightarrow> bool" where
  \<comment> \<open>Python truth value, as tested by \<open>if not method\<close>\<close>
  "truthy JNull = False"
| "truthy (JBool b) = b"
| "truthy (JInt n) = (n \<noteq> 0)"
| "truthy (JStr s) = (s \<noteq> [])"
| "truthy (JArr xs) = (xs \<noteq> [])"
| "truthy (JObj kvs) = (kvs \<noteq> [])"

subsection \<open>Exceptions, futures, tasks and the calls made on collaborators\<close>

datatype exn =
    AssertionError
  | NotImplementedError
  | AttributeError
  | KeyError
  | TypeError
  | InvalidStateError
  | OtherError string

text \<open>
  Dict lookup with a decoded JSON value as the key. A list or a dict is unhashable
  (\<open>TypeError\<close>). In a dict whose keys are ints (\<open>inflight\<close>) a bool is the int it
  equals and a str matches nothing; in a dict whose keys are strs (\<open>subscriptions\<close>)
  only a str can match.
\<close>

fun int_key :: "json \<Rightarrow> exn + int option" where
  "int_key (JInt n) = Inr (Some n)"
| "int_key (JBool b) = Inr (Some (if b then 1 else 0))"
| "int_key (JArr xs) = Inl TypeError"
| "int_key (JObj kvs) = Inl TypeError"
| "int_key v = Inr None"

fun str_key :: "json \<Rightarrow> exn + string option" where
  "str_key (JStr m) = Inr (Some m)"
| "str_key (JArr xs) = Inl TypeError"
| "str_key (JObj kvs) = Inl TypeError"
| "str_key v = Inr None"

text \<open>
  An \<open>asyncio.Future\<close>: pending, done with a result, done with the exception
  \<open>ElectrumErrorResponse(err, req)\<close>, or cancelled by whoever holds it.
\<close>

datatype future =
    Pending
  | Fulfilled json
  | Failed json msg
  | Cancelled

text \<open>What \<open>loop.create_task\<close> was given: \<open>q.put(result)\<close> or \<open>self._keepalive()\<close>.\<close>

datatype task = QueuePut nat json | KeepAlive

text \<open>
  ServerInfo lives in \<open>svr_info.py\<close>, which is not among the sources; the client only
  stores it, prints it and calls its \<open>get_port\<close>, which \<open>connect\<close> takes as a parameter.
\<close>

record server_info =
  si_hostname :: string
  si_ports :: "(string \<times> int \<times> bool) list"

datatype level = Debug | Info | Warn | Error

datatype logline =
    NoIdNorMethod
  | TrafficOnSubscription json
  | UnknownId json
  | ErrorResponse json
  | ConnectionLost
  | ConnectedTo server_info

text \<open>Calls on other objects, in the order the client makes them.\<close>

datatype event =
    ProtocolClose nat
  | TaskCancel nat
  | Log level logline
  | SendData nat msg

subsection \<open>The client object\<close>

text \<open>
  Objects are named by numbers: \<open>protocol\<close> holds the protocol object installed, an
  entry of \<open>inflight\<close> is \<open>(msg, fut)\<close> with \<open>fut\<close> an address in \<open>futures\<close>, a
  subscription queue is the number it got when \<open>asyncio.Queue()\<close> made it, and
  \<open>ka_task\<close> is an index into \<open>tasks\<close>. \<open>server_info\<close> and \<open>proto_code\<close> do not
  exist before the first \<open>connect\<close>.
\<close>

record client =
  protocol :: "nat option"
  next_id :: int
  inflight :: "int \<rightharpoonup> (msg \<times> nat)"
  subscriptions :: "string \<rightharpoonup> nat list"
  ka_task :: "nat option"
  server_info :: "server_info option"
  proto_code :: "string option"
  futures :: "nat \<Rightarrow> future"
  nfutures :: nat
  nqueues :: nat
  tasks :: "task list"
  trace :: "event list"

definition init :: client where
  \<comment> \<open>\<open>__init__\<close>, in a world where nothing has happened yet\<close>
  "init = \<lparr> protocol = None, next_id = 1, inflight = Map.empty,
            subscriptions = Map.empty, ka_task = None,
            server_info = None, proto_code = None,
            futures = (\<lambda>_. Pending), nfutures = 0, nqueues = 0,
            tasks = [], trace = [] \<rparr>"

definition emit :: "event \<Rightarrow> client \<Rightarrow> client" where
  "emit e s = s\<lparr>trace := trace s @ [e]\<rparr>"

definition logger :: "level \<Rightarrow> logline \<Rightarrow> client \<Rightarrow> client" where
  "logger l x s = emit (Log l x) s"

subsection \<open>\<open>_connection_lost\<close> and \<open>close\<close>\<close>

definition connection_lost :: "nat \<Rightarrow> client \<Rightarrow> (exn + unit) \<times> client" where
  "connection_lost p s =
     (if protocol s \<noteq> Some p then (Inr (), s)
      else
        let s1 = s\<lparr>protocol := None\<rparr>;
            s2 = logger Warn ConnectionLost s1
        in (case ka_task s2 of
              None \<Rightarrow> (Inr (), s2)
            | Some t \<Rightarrow> (Inr (), (emit (TaskCancel t) s2)\<lparr>ka_task := None\<rparr>)))"


subsection \<open>\<open>_got_response\<close>\<close>

fun broadcast :: "nat list \<Rightarrow> json \<Rightarrow> client \<Rightarrow> client" where
  \<comment> \<open>\<open>for q in subs: self.loop.create_task(q.put(result))\<close>\<close>
  "broadcast [] result s = s"
| "broadcast (q # subs) result s =
     broadcast subs result (s\<lparr>tasks := tasks s @ [QueuePut q result]\<rparr>)"

definition set_future :: "nat \<Rightarrow> future \<Rightarrow> client \<Rightarrow> (exn + unit) \<times> client" where
  \<comment> \<open>\<open>set_result\<close> and \<open>set_exception\<close> raise on a future that is already done\<close>
  "set_future rv v s =
     (if futures s rv = Pending then (Inr (), s\<lparr>futures := (futures s)(rv := v)\<rparr>)
      else (Inl InvalidStateError, s))"

definition got_response :: "msg \<Rightarrow> client \<Rightarrow> (exn + unit) \<times> client" where
  "got_response m s =
     (let resp_id = msg_get m ''id'' in
      if resp_id = JNull then
        (let method = msg_get m ''method'' in
         if \<not> truthy method then (Inr (), logger Error NoIdNorMethod s)
         else
           let result = msg_get m ''params'';
               s1 = logger Debug (TrafficOnSubscription method) s
           in (case str_key method of
                 Inl e \<Rightarrow> (Inl e, s1)
               | Inr None \<Rightarrow> (Inl TypeError, s1)
               | Inr (Some k) \<Rightarrow>
                   (case subscriptions s1 k of
                      None \<Rightarrow> (Inl TypeError, s1)
                    | Some subs \<Rightarrow> (Inr (), broadcast subs result s1))))
      else if m ''method'' \<noteq> None then (Inl AssertionError, s)
      else
        let result = msg_get m ''result'' in
        (case int_key resp_id of
           Inl e \<Rightarrow> (Inl e, s)
         | Inr None \<Rightarrow> (Inl KeyError, s)
         | Inr (Some k) \<Rightarrow>
             (case inflight s k of
                None \<Rightarrow> (Inl KeyError, s)
              | Some (req, rv) \<Rightarrow>
                  let s1 = s\<lparr>inflight := (inflight s)(k := None)\<rparr> in
                  (case m ''error'' of
                     Some err \<Rightarrow>
                       set_future rv (Failed err req) (logger Info (ErrorResponse err) s1)
                   | None \<Rightarrow> set_future rv (Fulfilled result) s1))))"

text \<open>
  Lines 183 to 186: \<open>self.inflight.pop(resp_id)\<close> has no default, so a missing key
  raises \<open>KeyError\<close> there; a key that is found yields the pair \<open>(msg, fut)\<close>, which is
  never false, so the branch under \<open>if not inf\<close> cannot run and has no counterpart
  above. Lines 173 and 174: \<open>self.subscriptions.get(method)\<close> does not call the
  \<open>defaultdict\<close>'s factory; for a missing key it is \<open>None\<close>, and \<open>for q in None\<close>
  raises \<open>TypeError\<close>.
\<close>

subsection \<open>\<open>_send_request\<close>, \<open>RPC\<close> and \<open>subscribe\<close>\<close>

text \<open>
  \<open>self.protocol.send_data(msg)\<close> is a call into \<open>protocol.py\<close>, which is not among
  the sources. The request functions take the behaviour of that call as a parameter: a
  function of the protocol object, the message and the client state at the moment of the
  call, returning normally or raising, and free to call back into the client.
\<close>

type_synonym transport = "nat \<Rightarrow> msg \<Rightarrow> client \<Rightarrow> (exn + unit) \<times> client"

definition send_data :: transport where
  \<comment> \<open>Modelled from the spec: the Transport contract's \<open>send(jsonObject)\<close> of
      \<open>protocol.py\<close>, which accepts a whole outbound JSON object; the object handed over
      is recorded in the trace.\<close>
  "send_data p m s = (Inr (), emit (SendData p m) s)"

text \<open>What \<open>_send_request\<close> returns: \<open>fut\<close>, or \<open>(fut, waitQ)\<close> for a subscription.\<close>

datatype ret = Fut nat | FutQ nat nat

definition send_request ::
  "transport \<Rightarrow> string \<Rightarrow> json list \<Rightarrow> bool \<Rightarrow> client \<Rightarrow> (exn + ret) \<times> client" where
  "send_request tr method params is_subscribe s =
     (let s1 = s\<lparr>next_id := next_id s + 1\<rparr>;
          req_id = next_id s1;
          m = [''id'' \<mapsto> JInt req_id, ''method'' \<mapsto> JStr method, ''params'' \<mapsto> JArr params];
          waitQ = nqueues s1;
          s2 = (if is_subscribe then
                  s1\<lparr>nqueues := waitQ + 1,
                     subscriptions := (subscriptions s1)
                       (method \<mapsto> (case subscriptions s1 method of None \<Rightarrow> [] | Some qs \<Rightarrow> qs) @ [waitQ])\<rparr>
                else s1);
          fut = nfutures s2;
          s3 = s2\<lparr>nfutures := fut + 1, futures := (futures s2)(fut := Pending)\<rparr>;
          s4 = s3\<lparr>inflight := (inflight s3)(req_id \<mapsto> (m, fut))\<rparr>
      in (case protocol s4 of
            None \<Rightarrow> (Inl AttributeError, s4)
          | Some p \<Rightarrow>
              (case tr p m s4 of
                 (Inl e, s5) \<Rightarrow> (Inl e, s5)
               | (Inr u, s5) \<Rightarrow> (Inr (if \<not> is_subscribe then Fut fut else FutQ fut waitQ), s5))))"

definition endswith :: "string \<Rightarrow> string \<Rightarrow> bool" where
  \<comment> \<open>\<open>s.endswith(suffix)\<close>\<close>
  "endswith s suf = (length suf \<le> length s \<and> drop (length s - length suf) s = suf)"

definition RPC :: "transport \<Rightarrow> string \<Rightarrow> json list \<Rightarrow> client \<Rightarrow> (exn + ret) \<times> client" where
  "RPC tr method params s =
     (if CHR ''.'' \<notin> set method then (Inl AssertionError, s)
      else send_request tr method params False s)"

definition subscribe :: "transport \<Rightarrow> string \<Rightarrow> json list \<Rightarrow> client \<Rightarrow> (exn + ret) \<times> client" where
  "subscribe tr method params s =
     (if CHR ''.'' \<notin> set method then (Inl AssertionError, s)
      else if \<not> endswith method ''subscribe'' then (Inl AssertionError, s)
      else send_request tr method params True s)"

subsection \<open>Sequences of requests\<close>

datatype invocation = Call string "json list" | Subscribe string "json list"

fun invoke :: "transport \<Rightarrow> invocation \<Rightarrow> client \<Rightarrow> (exn + ret) \<times> client" where
  "invoke tr (Call method params) s = RPC tr method params s"
| "invoke tr (Subscribe method params) s = subscribe tr method params s"

fun passes_asserts :: "invocation \<Rightarrow> bool" where
  "passes_asserts (Call method params) = (CHR ''.'' \<in> set method)"
| "passes_asserts (Subscribe method params) =
     (CHR ''.'' \<in> set method \<and> endswith method ''subscribe'')"

text \<open>
  One invocation after the other on the same client; an invocation that raised leaves
  the state it reached, and the next one starts from there. The ID an invocation
  allocated is the value it left in \<open>next_id\<close> (\<open>req_id = self.next_id\<close>, line 131); an
  invocation stopped by its own assertion allocates none and leaves the counter alone.
\<close>

fun allocated_ids :: "transport \<Rightarrow> invocation list \<Rightarrow> client \<Rightarrow> int list" where
  "allocated_ids tr [] s = []"
| "allocated_ids tr (i # is) s =
     (let s' = snd (invoke tr i s)
      in (if next_id s' \<noteq> next_id s then [next_id s'] else []) @ allocated_ids tr is s')"

fun invoke_all :: "transport \<Rightarrow> invocation list \<Rightarrow> client \<Rightarrow> client" where
  "invoke_all tr [] s = s"
| "invoke_all tr (i # is) s = invoke_all tr is (snd (invoke tr i s))"

fun sent_ids :: "event list \<Rightarrow> json list" where
  \<comment> \<open>the \<open>id\<close> of every message handed to \<open>send_data\<close>, in order\<close>
  "sent_ids [] = []"
| "sent_ids (SendData p m # es) = msg_get m ''id'' # sent_ids es"
| "sent_ids (e # es) = sent_ids es"

subsection \<open>\<open>connect\<close>\<close>

text \<open>
  \<open>use_tor\<close> is \<open>False\<close>, \<open>True\<close> or a pair \<open>(socks_host, socks_port)\<close>; \<open>proxy\<close> is
  \<open>None\<close> or a SOCKS address. What reaches \<open>create_connection\<close> as \<open>ssl\<close> is \<open>False\<close>,
  \<open>True\<close> or the context built at lines 88 to 90, which checks neither the host name
  nor the certificate chain.
\<close>

datatype use_tor = TorFalse | TorTrue | TorAddr string int

datatype ssl = SslFalse | SslTrue | SslNoVerify

record conn_request =
  cr_proxy :: "(string \<times> int) option"
  cr_ssl :: ssl
  cr_host :: string
  cr_port :: int

text \<open>
  \<open>server_info.get_port\<close> (in \<open>svr_info.py\<close>) and the two \<open>create_connection\<close>
  coroutines (asyncio, aiosocks) are parameters. The connection attempt is awaited, so
  other callbacks of the client may run meanwhile: it takes the state at the \<open>await\<close>
  and yields a protocol object or an exception, with the state at resumption.
\<close>

type_synonym get_port = "server_info \<Rightarrow> string \<Rightarrow> exn + (string \<times> int \<times> bool)"

type_synonym network = "conn_request \<Rightarrow> client \<Rightarrow> (exn + nat) \<times> client"

definition connect_request ::
  "get_port \<Rightarrow> server_info \<Rightarrow> string \<Rightarrow> use_tor \<Rightarrow> bool \<Rightarrow> (string \<times> int) option
     \<Rightarrow> client \<Rightarrow> (exn + conn_request) \<times> client" where
  \<comment> \<open>lines 59 to 92: everything up to the \<open>await\<close>\<close>
  "connect_request get_port si pc use_tor disable_cert_verify proxy s =
     (let s1 = s\<lparr>server_info := Some si, proto_code := Some pc\<rparr> in
      if pc = ''g'' then (Inl NotImplementedError, s1)
      else
        (case get_port si pc of
           Inl e \<Rightarrow> (Inl e, s1)
         | Inr (hostname, port, use_ssl) \<Rightarrow>
             (case (case use_tor of
                      TorFalse \<Rightarrow> Inr (disable_cert_verify, proxy)
                    | TorTrue \<Rightarrow>
                        (if proxy \<noteq> None then Inl AssertionError
                         else Inr (True, Some (''localhost'', 9150)))
                    | TorAddr socks_host socks_port \<Rightarrow>
                        (if proxy \<noteq> None then Inl AssertionError
                         else Inr (True, Some (socks_host, socks_port)))) of
                Inl e \<Rightarrow> (Inl e, s1)
              | Inr (disable_cert_verify', proxy') \<Rightarrow>
                  (Inr \<lparr> cr_proxy = proxy',
                         cr_ssl = (if use_ssl \<and> disable_cert_verify' then SslNoVerify
                                   else if use_ssl then SslTrue else SslFalse),
                         cr_host = hostname, cr_port = port \<rparr>, s1))))"

definition connect_install :: "server_info \<Rightarrow> nat \<Rightarrow> client \<Rightarrow> client" where
  \<comment> \<open>lines 103 to 111: after the \<open>await\<close>. \<open>protocol.client = self\<close> sets an
      attribute of the protocol object and leaves the client as it is; of the keep-alive
      coroutine (lines 113 to 121) only the creation of its task is recorded.\<close>
  "connect_install si p s =
     (let s1 = (case protocol s of None \<Rightarrow> s | Some old \<Rightarrow> emit (ProtocolClose old) s);
          s2 = s1\<lparr>protocol := Some p\<rparr>;
          s3 = s2\<lparr>tasks := tasks s2 @ [KeepAlive], ka_task := Some (length (tasks s2))\<rparr>
      in logger Debug (ConnectedTo si) s3)"

definition connect ::
  "get_port \<Rightarrow> network \<Rightarrow> server_info \<Rightarrow> string \<Rightarrow> use_tor \<Rightarrow> bool \<Rightarrow> (string \<times> int) option
     \<Rightarrow> client \<Rightarrow> (exn + unit) \<times> client" where
  "connect get_port net si pc use_tor disable_cert_verify proxy s =
     (case connect_request get_port si pc use_tor disable_cert_verify proxy s of
        (Inl e, s1) \<Rightarrow> (Inl e, s1)
      | (Inr req, s1) \<Rightarrow>
          (case net req s1 of
             (Inl e, s2) \<Rightarrow> (Inl e, s2)
           | (Inr p, s2) \<Rightarrow> (Inr (), connect_install si p s2)))"

subsection \<open>Example states\<close>

text \<open>
  A connected client with one request outstanding: ID 7, registered with the request
  it sent and the future at address 0, still pending.
\<close>

definition req7 :: msg where
  "req7 = [''id'' \<mapsto> JInt 7, ''method'' \<mapsto> JStr ''server.version'', ''params'' \<mapsto> JArr []]"

definition pending7 :: client where
  "pending7 = init\<lparr>protocol := Some 0, next_id := 7, inflight := [7 \<mapsto> (req7, 0)],
                   nfutures := 1\<rparr>"


text \<open>
  A transport for testing the order of registration and sending: on receiving a
  request it at once delivers a notification for \<open>method\<close> to the client, before
  \<open>send_data\<close> returns.
\<close>

definition notify_on_send :: "string \<Rightarrow> json \<Rightarrow> transport" where
  "notify_on_send method payload p m s =
     got_response [''method'' \<mapsto> JStr method, ''params'' \<mapsto> payload] s"

text \<open>A server, a \<open>get_port\<close> and a network that only accepts the default Tor proxy.\<close>

definition example_server :: server_info where
  "example_server = \<lparr> si_hostname = ''erbium1.sytes.net'', si_ports = [(''s'', 50002, True)] \<rparr>"

definition example_get_port :: get_port where
  \<comment> \<open>Modelled from the spec: the ServerEndpoint's mapping from a protocol code to
      \<open>(port, useTLS)\<close>; \<open>svr_info.py\<close> is not among the sources.\<close>
  "example_get_port si pc =
     (case map_of (si_ports si) pc of
        None \<Rightarrow> Inl KeyError
      | Some (port, use_ssl) \<Rightarrow> Inr (si_hostname si, port, use_ssl))"

definition tor_only_network :: network where
  "tor_only_network req s =
     (if cr_proxy req = Some (''localhost'', 9150) \<and> cr_ssl req = SslNoVerify
      then (Inr 1, s) else (Inl (OtherError ''refused''), s))"

section \<open>Properties of the dispatcher\<close>

lemma tasks_broadcast:
  "tasks (broadcast subs r s) = tasks s @ map (\<lambda>q. QueuePut q r) subs"
  by (induction subs arbitrary: s) simp_all




text \<open>
  C2 at the failing input: on a client with nothing outstanding, \<open>{"id":7,"result":42}\<close>
  is not logged and dropped; \<open>self.inflight.pop(resp_id)\<close> raises \<open>KeyError\<close>. No log
  line is written and the state is as before.
\<close>

theorem unknown_id_raises_KeyError:
  "got_response [''id'' \<mapsto> JInt 7, ''result'' \<mapsto> JInt 42] init = (Inl KeyError, init)"
  by (simp add: got_response_def msg_get_def init_def Let_def)

text \<open>
  The general form: any \<open>id\<close> that is hashable and not a key of \<open>inflight\<close>, in
  any state.
\<close>

lemma unknown_id_raises:
  assumes "msg_get m ''id'' \<noteq> JNull" and "m ''method'' = None"
    and "int_key (msg_get m ''id'') = Inr ko"
    and "ko = None \<or> (\<exists>k. ko = Some k \<and> inflight s k = None)"
  shows "got_response m s = (Inl KeyError, s)"
  using assms by (auto simp: got_response_def Let_def)

text \<open>
  C3, as the code has it. A message with an \<open>id\<close> that is not \<open>None\<close> and with a
  \<open>method\<close> field makes \<open>_got_response\<close> raise \<open>AssertionError\<close> (line 179) to whoever
  delivered the message, with the client state exactly as it was: no entry of \<open>inflight\<close>
  is removed and no future is resolved.
\<close>

theorem id_with_method_is_asserted:
  assumes "msg_get m ''id'' \<noteq> JNull" and "m ''method'' \<noteq> None"
  shows "got_response m s = (Inl AssertionError, s)"
  using assms by (simp add: got_response_def Let_def)

theorem id_with_method_is_asserted_witness:
  "got_response [''id'' \<mapsto> JInt 7, ''method'' \<mapsto> JStr ''a.b''] pending7
     = (Inl AssertionError, pending7)"
  using id_with_method_is_asserted [of "[''id'' \<mapsto> JInt 7, ''method'' \<mapsto> JStr ''a.b'']" pending7]
  by (simp add: msg_get_def)

text \<open>
  C3 as stated fails: the message is not dropped without raising. On a fresh client,
  \<open>{"id":3,"method":"blockchain.numblocks.subscribe"}\<close> raises \<open>AssertionError\<close>.
\<close>

theorem id_with_method_raises:
  "got_response [''id'' \<mapsto> JInt 3, ''method'' \<mapsto> JStr ''blockchain.numblocks.subscribe''] init
     = (Inl AssertionError, init)"
  by (simp add: got_response_def msg_get_def Let_def)

text \<open>
  A message whose \<open>id\<close> is \<open>null\<close> counts as having no ID: with a \<open>method\<close> it is a
  notification and is broadcast to the method's channels.
\<close>

lemma null_id_with_method_is_notification:
  assumes "m ''id'' = Some JNull" and "m ''method'' = Some (JStr method)" and "method \<noteq> []"
    and "subscriptions s method = Some subs"
  shows "got_response m s =
           (Inr (), broadcast subs (msg_get m ''params'')
                      (logger Debug (TrafficOnSubscription (JStr method)) s))"
  using assms by (simp add: got_response_def msg_get_def Let_def logger_def emit_def)

text \<open>
  C4 at the failing input: a notification for a method nobody subscribed to, on a fresh
  client. After the debug log line, \<open>self.subscriptions.get(method)\<close> is \<open>None\<close> and the
  \<open>for\<close> loop over it raises \<open>TypeError\<close>.
\<close>

theorem unsubscribed_notification_raises_TypeError:
  "got_response [''method'' \<mapsto> JStr ''blockchain.numblocks.subscribe'',
                 ''params'' \<mapsto> JArr [JInt 5]] init
     = (Inl TypeError,
        logger Debug (TrafficOnSubscription (JStr ''blockchain.numblocks.subscribe'')) init)"
  by (simp add: got_response_def msg_get_def init_def Let_def logger_def emit_def)

text \<open>
  The general form: a notification whose method is a string without an entry in
  \<open>subscriptions\<close> raises, in any state; only the debug line is added.
\<close>

lemma unsubscribed_notification_raises:
  assumes "msg_get m ''id'' = JNull" and "m ''method'' = Some (JStr method)" and "method \<noteq> []"
    and "subscriptions s method = None"
  shows "got_response m s =
           (Inl TypeError, logger Debug (TrafficOnSubscription (JStr method)) s)"
  using assms by (simp add: got_response_def msg_get_def Let_def logger_def emit_def)

section \<open>Properties of the connection state\<close>


text \<open>
  C9. A loss event from a protocol object that is not the installed one returns at
  line 33: the whole client state, and with it \<open>protocol\<close>, \<open>ka_task\<close>, \<open>inflight\<close>
  and \<open>subscriptions\<close>, is unchanged.
\<close>

theorem stale_connection_lost_ignored:
  "protocol s \<noteq> Some p \<Longrightarrow> connection_lost p s = (Inr (), s)"
  by (simp add: connection_lost_def)

theorem stale_connection_lost_ignored_witness:
  "protocol pending7 \<noteq> Some 5 \<and> connection_lost 5 pending7 = (Inr (), pending7)"
  using stale_connection_lost_ignored [of pending7 5]
  by (simp add: pending7_def init_def)

text \<open>
  C10. \<open>connect\<close> with protocol code \<open>'g'\<close> raises \<open>NotImplementedError\<close> whatever the
  other arguments are, before \<open>get_port\<close> and before any connection attempt (the result
  depends on neither), and it has already assigned \<open>server_info\<close> and \<open>proto_code\<close>:
  the state it leaves differs from the one it found, as on a fresh client.
\<close>

theorem connect_websocket_not_atomic:
  "connect get_port net si ''g'' use_tor disable_cert_verify proxy s =
     (Inl NotImplementedError, s\<lparr>server_info := Some si, proto_code := Some ''g''\<rparr>)
   \<and> snd (connect get_port net si ''g'' use_tor disable_cert_verify proxy init) \<noteq> init"
proof -
  have "server_info (init\<lparr>server_info := Some si, proto_code := Some ''g''\<rparr>) \<noteq> server_info init"
    by (simp add: init_def)
  then have "init\<lparr>server_info := Some si, proto_code := Some ''g''\<rparr> \<noteq> init" by metis
  then show ?thesis by (simp add: connect_def connect_request_def Let_def)
qed

section \<open>Properties of the requests\<close>

lemma sent_ids_append: "sent_ids (xs @ ys) = sent_ids xs @ sent_ids ys"
  by (induction xs rule: sent_ids.induct) simp_all

lemma invoke_rejected: "\<not> passes_asserts i \<Longrightarrow> invoke tr i s = (Inl AssertionError, s)"
  by (cases i) (auto simp: RPC_def subscribe_def)

lemma send_request_next_id:
  assumes "\<And>p m st. next_id (snd (tr p m st)) = next_id st"
  shows "next_id (snd (send_request tr method params b s)) = next_id s + 1"
proof -
  have fe: "next_id s5 = next_id st" if "tr p m st = (x, s5)" for p m st x s5
    using assms [of p m st] that by simp
  show ?thesis
    by (auto simp: send_request_def Let_def split: option.splits prod.splits sum.splits dest!: fe)
qed

lemma invoke_next_id:
  assumes "\<And>p m st. next_id (snd (tr p m st)) = next_id st" and "passes_asserts i"
  shows "next_id (snd (invoke tr i s)) = next_id s + 1"
  using assms(2) send_request_next_id [OF assms(1)]
  by (cases i) (simp_all add: RPC_def subscribe_def)


lemma send_data_frame: "next_id (snd (send_data p m st)) = next_id st"
  by (simp add: send_data_def emit_def)

lemma invoke_send_data_trace:
  assumes "protocol s = Some p" and "passes_asserts i"
  shows "\<exists>m. trace (snd (invoke send_data i s)) = trace s @ [SendData p m]
           \<and> msg_get m ''id'' = JInt (next_id s + 1)
           \<and> protocol (snd (invoke send_data i s)) = Some p"
  using assms
  by (cases i)
     (auto simp: RPC_def subscribe_def send_request_def send_data_def emit_def Let_def msg_get_def)

lemma wire_ids:
  assumes "protocol s = Some p"
  shows "\<exists>es. trace (invoke_all send_data invs s) = trace s @ es
            \<and> sent_ids es = map JInt (allocated_ids send_data invs s)"
  using assms
proof (induction invs arbitrary: s)
  case Nil
  then show ?case by simp
next
  case (Cons i invs)
  show ?case
  proof (cases "passes_asserts i")
    case True
    let ?s' = "snd (invoke send_data i s)"
    from invoke_send_data_trace [OF Cons.prems True]
    obtain m where tr: "trace ?s' = trace s @ [SendData p m]"
      and mid: "msg_get m ''id'' = JInt (next_id s + 1)"
      and pr: "protocol ?s' = Some p" by blast
    from Cons.IH [OF pr] obtain es where
      es: "trace (invoke_all send_data invs ?s') = trace ?s' @ es"
      and ids: "sent_ids es = map JInt (allocated_ids send_data invs ?s')" by blast
    have nid: "next_id ?s' = next_id s + 1"
      using invoke_next_id [of send_data i s] True by (simp add: send_data_frame)
    have "trace (invoke_all send_data (i # invs) s) = trace s @ (SendData p m # es)"
      using es tr by simp
    moreover have "sent_ids (SendData p m # es) = map JInt (allocated_ids send_data (i # invs) s)"
      using ids mid nid by (simp add: Let_def)
    ultimately show ?thesis by blast
  next
    case False
    with Cons.IH [OF Cons.prems] show ?thesis
      by (simp add: invoke_rejected Let_def)
  qed
qed





text \<open>
  With the recording transport on a connected client, those IDs are the \<open>id\<close> fields of
  the messages handed to \<open>send_data\<close>, in order.
\<close>

lemma request_ids_on_the_wire:
  "protocol s = Some p \<Longrightarrow>
     sent_ids (drop (length (trace s)) (trace (invoke_all send_data invs s)))
       = map JInt (allocated_ids send_data invs s)"
  using wire_ids [of s p invs] by auto

text \<open>
  C6. A \<open>subscribe\<close> that passes its assertions on a connected client calls
  \<open>send_data\<close> with the request (carrying the new ID and the method) in a state
  \<open>s4\<close> where the new queue is already the last channel of \<open>subscriptions[method]\<close>,
  whatever the transport does with it; the queue returned to the caller is that
  channel. So with a transport that delivers a notification for the method at once,
  inside \<open>send_data\<close>, the dispatcher schedules \<open>q.put(payload)\<close> on the new channel.
\<close>

theorem subscribe_registers_before_send:
  assumes "CHR ''.'' \<in> set method" and "endswith method ''subscribe''"
    and "protocol s = Some p"
  shows "(\<exists>s4 m.
            subscriptions s4 method =
              Some ((case subscriptions s method of None \<Rightarrow> [] | Some qs \<Rightarrow> qs) @ [nqueues s])
          \<and> m ''id'' = Some (JInt (next_id s + 1)) \<and> m ''method'' = Some (JStr method)
          \<and> (\<forall>tr. subscribe tr method params s =
                (case tr p m s4 of
                   (Inl e, s5) \<Rightarrow> (Inl e, s5)
                 | (Inr u, s5) \<Rightarrow> (Inr (FutQ (nfutures s) (nqueues s)), s5))))
       \<and> fst (subscribe (notify_on_send method payload) method params s)
           = Inr (FutQ (nfutures s) (nqueues s))
       \<and> QueuePut (nqueues s) payload
           \<in> set (tasks (snd (subscribe (notify_on_send method payload) method params s)))"
proof -
  let ?old = "case subscriptions s method of None \<Rightarrow> [] | Some qs \<Rightarrow> qs"
  let ?m = "[''id'' \<mapsto> JInt (next_id s + 1), ''method'' \<mapsto> JStr method,
             ''params'' \<mapsto> JArr params]"
  let ?s4 = "s\<lparr>next_id := next_id s + 1,
                nqueues := nqueues s + 1,
                subscriptions := (subscriptions s)(method \<mapsto> ?old @ [nqueues s]),
                nfutures := nfutures s + 1,
                futures := (futures s)(nfutures s := Pending),
                inflight := (inflight s)(next_id s + 1 \<mapsto> (?m, nfutures s))\<rparr>"
  have run: "subscribe tr method params s =
               (case tr p ?m ?s4 of
                  (Inl e, s5) \<Rightarrow> (Inl e, s5)
                | (Inr u, s5) \<Rightarrow> (Inr (FutQ (nfutures s) (nqueues s)), s5))" for tr
    using assms
    by (simp add: subscribe_def send_request_def Let_def split: prod.splits sum.splits)
  have reg: "subscriptions ?s4 method = Some (?old @ [nqueues s])" by simp
  have ne: "method \<noteq> []" using assms(1) by auto
  have deliver: "notify_on_send method payload p ?m ?s4 =
                (Inr (), broadcast (?old @ [nqueues s]) payload
                           (logger Debug (TrafficOnSubscription (JStr method)) ?s4))"
    using ne by (simp add: notify_on_send_def got_response_def msg_get_def Let_def logger_def emit_def)
  have A: "\<exists>s4 m.
            subscriptions s4 method = Some (?old @ [nqueues s])
          \<and> m ''id'' = Some (JInt (next_id s + 1)) \<and> m ''method'' = Some (JStr method)
          \<and> (\<forall>tr. subscribe tr method params s =
                (case tr p m s4 of
                   (Inl e, s5) \<Rightarrow> (Inl e, s5)
                 | (Inr u, s5) \<Rightarrow> (Inr (FutQ (nfutures s) (nqueues s)), s5)))"
    apply (rule exI [of _ ?s4])
    apply (rule exI [of _ ?m])
    using run reg by simp
  have B: "fst (subscribe (notify_on_send method payload) method params s)
             = Inr (FutQ (nfutures s) (nqueues s))"
    unfolding run deliver by simp
  have C: "QueuePut (nqueues s) payload
             \<in> set (tasks (snd (subscribe (notify_on_send method payload) method params s)))"
    unfolding run deliver by (simp add: tasks_broadcast)
  from A B C show ?thesis by blast
qed

theorem subscribe_registers_before_send_witness:
  "fst (subscribe (notify_on_send ''blockchain.numblocks.subscribe'' (JArr [JInt 5]))
          ''blockchain.numblocks.subscribe'' [] pending7) = Inr (FutQ 1 0)
   \<and> QueuePut 0 (JArr [JInt 5])
       \<in> set (tasks (snd (subscribe (notify_on_send ''blockchain.numblocks.subscribe'' (JArr [JInt 5]))
                            ''blockchain.numblocks.subscribe'' [] pending7)))"
  using subscribe_registers_before_send
          [of "''blockchain.numblocks.subscribe''" pending7 0 "[]" "JArr [JInt 5]"]
  by (simp add: endswith_def pending7_def init_def)

subsection \<open>Connecting through Tor\<close>

text \<open>
  C7. Take a \<open>connect\<close> that reaches line 70 (the protocol code is not \<open>'g'\<close> and
  \<open>get_port\<close> returned) with \<open>use_tor\<close> true or a pair. Without \<open>proxy\<close>, the
  connection is attempted through the SOCKS address \<open>localhost:9150\<close> for \<open>True\<close>, or
  the pair given, and when TLS is used the context is the one that verifies nothing,
  whatever \<open>disable_cert_verify\<close> was. With a \<open>proxy\<close>, the assertion of line 79
  fails: \<open>AssertionError\<close>, which is what the spec calls ConfigurationError, before any
  connection attempt.
\<close>

theorem connect_tor_policy:
  assumes "pc \<noteq> ''g''" and "get_port si pc = Inr (hostname, port, use_ssl)"
    and "use_tor \<noteq> TorFalse"
  shows "connect get_port net si pc use_tor disable_cert_verify None s =
           (case net \<lparr> cr_proxy = Some (case use_tor of
                                         TorAddr socks_host socks_port \<Rightarrow> (socks_host, socks_port)
                                       | _ \<Rightarrow> (''localhost'', 9150)),
                       cr_ssl = (if use_ssl then SslNoVerify else SslFalse),
                       cr_host = hostname, cr_port = port \<rparr>
                     (s\<lparr>server_info := Some si, proto_code := Some pc\<rparr>) of
              (Inl e, s2) \<Rightarrow> (Inl e, s2)
            | (Inr p, s2) \<Rightarrow> (Inr (), connect_install si p s2))
       \<and> connect get_port net si pc use_tor disable_cert_verify (Some px) s =
           (Inl AssertionError, s\<lparr>server_info := Some si, proto_code := Some pc\<rparr>)"
  using assms
  by (cases use_tor) (simp_all add: connect_def connect_request_def Let_def)

theorem connect_tor_policy_witness:
  "connect example_get_port tor_only_network example_server ''s'' TorTrue False None init =
     (Inr (), connect_install example_server 1
                (init\<lparr>server_info := Some example_server, proto_code := Some ''s''\<rparr>))
   \<and> connect example_get_port tor_only_network example_server ''s'' TorTrue False
        (Some (''10.0.0.1'', 1080)) init =
     (Inl AssertionError, init\<lparr>server_info := Some example_server, proto_code := Some ''s''\<rparr>)"
  using connect_tor_policy
          [of "''s''" example_get_port example_server "''erbium1.sytes.net''" 50002 True TorTrue
              tor_only_network False init "(''10.0.0.1'', 1080)"]
  by (simp add: example_get_port_def example_server_def tor_only_network_def)

end
